theory Spec2Isabelle
  imports Complex_Main "HOL-Library.Word"
begin

section \<open>Platform values\<close>

text \<open>
  JavaScript numbers. A finite double is taken as the exact real it denotes (no rounding,
  no overflow, one zero); the three non-finite values are kept, because the player divides
  by the playback speed and takes a remainder by the buffer duration without checking
  either for zero.
\<close>

datatype jsnum = Fin real | PosInf | NegInf | NaN

fun isFinite :: "jsnum \<Rightarrow> bool" where
  "isFinite (Fin x) = True"
| "isFinite PosInf = False"
| "isFinite NegInf = False"
| "isFinite NaN = False"

text \<open>\<open>a - b\<close>\<close>

fun js_sub :: "jsnum \<Rightarrow> jsnum \<Rightarrow> jsnum" where
  "js_sub (Fin x) (Fin y) = Fin (x - y)"
| "js_sub (Fin x) PosInf = NegInf"
| "js_sub (Fin x) NegInf = PosInf"
| "js_sub PosInf (Fin y) = PosInf"
| "js_sub PosInf NegInf = PosInf"
| "js_sub PosInf PosInf = NaN"
| "js_sub NegInf (Fin y) = NegInf"
| "js_sub NegInf PosInf = NegInf"
| "js_sub NegInf NegInf = NaN"
| "js_sub NaN b = NaN"
| "js_sub a NaN = NaN"

text \<open>\<open>a * b\<close>: an infinity times zero is NaN, otherwise the signs multiply.\<close>

fun js_mul :: "jsnum \<Rightarrow> jsnum \<Rightarrow> jsnum" where
  "js_mul (Fin x) (Fin y) = Fin (x * y)"
| "js_mul (Fin x) PosInf = (if x = 0 then NaN else if 0 < x then PosInf else NegInf)"
| "js_mul (Fin x) NegInf = (if x = 0 then NaN else if 0 < x then NegInf else PosInf)"
| "js_mul PosInf (Fin y) = (if y = 0 then NaN else if 0 < y then PosInf else NegInf)"
| "js_mul NegInf (Fin y) = (if y = 0 then NaN else if 0 < y then NegInf else PosInf)"
| "js_mul PosInf PosInf = PosInf"
| "js_mul PosInf NegInf = NegInf"
| "js_mul NegInf PosInf = NegInf"
| "js_mul NegInf NegInf = PosInf"
| "js_mul NaN b = NaN"
| "js_mul a NaN = NaN"

text \<open>\<open>a / b\<close>: a finite non-zero value over zero is an infinity, zero over zero is NaN.\<close>

fun js_div :: "jsnum \<Rightarrow> jsnum \<Rightarrow> jsnum" where
  "js_div (Fin x) (Fin y) =
     (if y = 0 then (if x = 0 then NaN else if 0 < x then PosInf else NegInf)
      else Fin (x / y))"
| "js_div (Fin x) PosInf = Fin 0"
| "js_div (Fin x) NegInf = Fin 0"
| "js_div PosInf (Fin y) = (if 0 \<le> y then PosInf else NegInf)"
| "js_div NegInf (Fin y) = (if 0 \<le> y then NegInf else PosInf)"
| "js_div PosInf PosInf = NaN"
| "js_div PosInf NegInf = NaN"
| "js_div NegInf PosInf = NaN"
| "js_div NegInf NegInf = NaN"
| "js_div NaN b = NaN"
| "js_div a NaN = NaN"

text \<open>The integer part of a real, rounded towards zero.\<close>

definition trunc :: "real \<Rightarrow> int" where
  "trunc q = (if 0 \<le> q then \<lfloor>q\<rfloor> else \<lceil>q\<rceil>)"

text \<open>
  \<open>a % b\<close>: the remainder has the sign of the dividend; it is NaN when the divisor is zero
  or the dividend is not finite, and the dividend itself when the divisor is an infinity.
\<close>

fun js_rem :: "jsnum \<Rightarrow> jsnum \<Rightarrow> jsnum" where
  "js_rem (Fin x) (Fin y) = (if y = 0 then NaN else Fin (x - y * of_int (trunc (x / y))))"
| "js_rem (Fin x) PosInf = Fin x"
| "js_rem (Fin x) NegInf = Fin x"
| "js_rem PosInf b = NaN"
| "js_rem NegInf b = NaN"
| "js_rem NaN b = NaN"
| "js_rem (Fin x) NaN = NaN"

text \<open>\<open>a >= b\<close>: false as soon as one side is NaN.\<close>

fun js_ge :: "jsnum \<Rightarrow> jsnum \<Rightarrow> bool" where
  "js_ge (Fin x) (Fin y) = (y \<le> x)"
| "js_ge (Fin x) PosInf = False"
| "js_ge (Fin x) NegInf = True"
| "js_ge PosInf (Fin y) = True"
| "js_ge PosInf PosInf = True"
| "js_ge PosInf NegInf = True"
| "js_ge NegInf (Fin y) = False"
| "js_ge NegInf PosInf = False"
| "js_ge NegInf NegInf = True"
| "js_ge NaN b = False"
| "js_ge a NaN = False"

text \<open>
  What a call can throw. The first five are exceptions of the platform. Two failures
  carry the names the specification gives them: \<open>DeviceUnavailable\<close> is the reason with
  which \<open>AudioContext.resume()\<close> rejects, which the \<open>await\<close> in \<open>playAudio\<close> passes on
  unchanged, and \<open>InvalidBuffer\<close> is the exception with which \<open>createBuffer\<close> refuses a
  buffer without frames (on the platform a NotSupportedError, like its other refusals),
  which \<open>decodeAudioData\<close> passes on unchanged. \<open>InvalidSpeed\<close> is the remaining error
  kind of the specification; no statement of the source raises it.
\<close>

datatype js_error =
    TypeError | RangeError | InvalidStateError | NotSupportedError | InvalidCharacterError
  | DeviceUnavailable | InvalidBuffer | InvalidSpeed

text \<open>
  An \<open>AudioBuffer\<close> as the platform exposes it: \<open>frames\<close> is its \<open>length\<close> attribute
  and \<open>channelData\<close> holds one sample list per channel (\<open>getChannelData\<close>). The samples
  are 32-bit floats; every value stored below is a 16-bit integer over \<open>2 ^ 15\<close>, which a
  32-bit float holds exactly.
\<close>

record AudioBuffer =
  numberOfChannels :: nat
  frames :: nat
  sampleRate :: real
  channelData :: "real list list"

text \<open>The \<open>duration\<close> attribute: frames over sample rate, in seconds.\<close>

definition duration :: "AudioBuffer \<Rightarrow> jsnum" where
  "duration b = Fin (real (frames b) / sampleRate b)"

section \<open>Decoding raw PCM (services/geminiService.ts)\<close>

type_synonym byte = "8 word"
type_synonym int16 = "16 word"

text \<open>
  The loop of \<open>decode\<close>: \<open>bytes[i] = binaryString.charCodeAt(i)\<close> for \<open>i\<close> from 0 to
  \<open>len - 1\<close>. The binary string is the list of its code units; storing one into a
  \<open>Uint8Array\<close> keeps it modulo 256.
\<close>

function decode_loop :: "nat list \<Rightarrow> nat \<Rightarrow> byte list \<Rightarrow> byte list" where
  "decode_loop binaryString i bytes =
     (if i < length binaryString
      then decode_loop binaryString (Suc i) (bytes[i := of_nat (binaryString ! i)])
      else bytes)"
  by pat_completeness auto
termination
  by (relation "measure (\<lambda>(binaryString, i, bytes). length binaryString - i)") auto

text \<open>
  \<open>decode\<close>. The platform's \<open>atob\<close> is a parameter: it returns the binary string, or
  nothing where it throws on input that is not base64.
\<close>

definition decode :: "(string \<Rightarrow> nat list option) \<Rightarrow> string \<Rightarrow> js_error + byte list" where
  "decode atob base64 =
     (case atob base64 of
        None \<Rightarrow> Inl InvalidCharacterError
      | Some binaryString \<Rightarrow>
          (let len = length binaryString
           in Inr (decode_loop binaryString 0 (replicate len 0))))"

text \<open>
  \<open>new Int16Array(bytes.buffer)\<close>: a view of the bytes as 16-bit integers, low byte first
  (typed arrays use the byte order of the machine, little-endian here as the specification
  has it). The constructor throws a RangeError when the byte length is odd.
\<close>

definition int16_at :: "byte list \<Rightarrow> nat \<Rightarrow> int16" where
  "int16_at bytes k = word_cat (bytes ! (2 * k + 1)) (bytes ! (2 * k))"

definition Int16Array :: "byte list \<Rightarrow> js_error + int16 list" where
  "Int16Array bytes =
     (if odd (length bytes) then Inl RangeError
      else Inr (map (int16_at bytes) [0..<length bytes div 2]))"

text \<open>
  \<open>ctx.createBuffer(numChannels, length, sampleRate)\<close>: a buffer of silence, or an
  exception for arguments the context does not take. The Web Audio API has every context
  refuse a length of zero, no channels, and a sample rate that is not positive; which of
  the other arguments a context takes (its range of sample rates, the lengths it can
  allocate) is the parameter \<open>ctx\<close>.
\<close>

type_synonym AudioContext = "nat \<Rightarrow> nat \<Rightarrow> real \<Rightarrow> bool"

definition createBuffer :: "AudioContext \<Rightarrow> nat \<Rightarrow> nat \<Rightarrow> real \<Rightarrow> js_error + AudioBuffer" where
  "createBuffer ctx numChannels len rate =
     (if len = 0 then Inl InvalidBuffer
      else if numChannels = 0 \<or> rate \<le> 0 \<or> \<not> ctx numChannels len rate
      then Inl NotSupportedError
      else Inr \<lparr>numberOfChannels = numChannels, frames = len, sampleRate = rate,
                channelData = replicate numChannels (replicate len 0)\<rparr>)"

text \<open>
  The inner loop of \<open>decodeAudioData\<close>:
  \<open>channelData[i] = dataInt16[i * numChannels + channel] / 32768.0\<close>.
\<close>

function sample_loop :: "int16 list \<Rightarrow> nat \<Rightarrow> nat \<Rightarrow> nat \<Rightarrow> nat \<Rightarrow> real list \<Rightarrow> real list" where
  "sample_loop dataInt16 numChannels channel frameCount i chan =
     (if i < frameCount
      then sample_loop dataInt16 numChannels channel frameCount (Suc i)
             (chan[i := real_of_int (sint (dataInt16 ! (i * numChannels + channel))) / 32768])
      else chan)"
  by pat_completeness auto
termination
  by (relation "measure (\<lambda>(d, n, c, frameCount, i, chan). frameCount - i)") auto

text \<open>The outer loop, over the channels.\<close>

function channel_loop :: "int16 list \<Rightarrow> nat \<Rightarrow> nat \<Rightarrow> nat \<Rightarrow> AudioBuffer \<Rightarrow> AudioBuffer" where
  "channel_loop dataInt16 numChannels frameCount channel buffer =
     (if channel < numChannels
      then channel_loop dataInt16 numChannels frameCount (Suc channel)
             (buffer\<lparr>channelData := (channelData buffer)
                [channel := sample_loop dataInt16 numChannels channel frameCount 0
                              (channelData buffer ! channel)]\<rparr>)
      else buffer)"
  by pat_completeness auto
termination
  by (relation "measure (\<lambda>(d, numChannels, f, channel, b). numChannels - channel)") auto

text \<open>
  \<open>decodeAudioData(base64Data, ctx, sampleRate = 24000)\<close>. A thrown exception is the
  rejected promise. The function reads nothing but its arguments.
\<close>

definition decodeAudioData ::
  "(string \<Rightarrow> nat list option) \<Rightarrow> string \<Rightarrow> AudioContext \<Rightarrow> real option
     \<Rightarrow> js_error + AudioBuffer" where
  "decodeAudioData atob base64Data ctx sampleRate' =
     (let rate = (case sampleRate' of None \<Rightarrow> 24000 | Some r \<Rightarrow> r)
      in case decode atob base64Data of
           Inl e \<Rightarrow> Inl e
         | Inr bytes \<Rightarrow>
            (case Int16Array bytes of
               Inl e \<Rightarrow> Inl e
             | Inr dataInt16 \<Rightarrow>
                (let numChannels = 1;
                     frameCount = length dataInt16 div numChannels
                 in case createBuffer ctx numChannels frameCount rate of
                      Inl e \<Rightarrow> Inl e
                    | Inr buffer \<Rightarrow>
                        Inr (channel_loop dataInt16 numChannels frameCount 0 buffer))))"

text \<open>
  A decoder for padded base64 over the standard alphabet, to run \<open>decodeAudioData\<close> on
  concrete text; on such text it returns what \<open>atob\<close> returns.
\<close>

definition b64_index :: "char \<Rightarrow> nat option" where
  "b64_index c =
     (let k = (of_char c :: nat)
      in if 65 \<le> k \<and> k \<le> 90 then Some (k - 65)
         else if 97 \<le> k \<and> k \<le> 122 then Some (k - 71)
         else if 48 \<le> k \<and> k \<le> 57 then Some (k + 4)
         else if k = 43 then Some 62
         else if k = 47 then Some 63
         else None)"

fun atob_padded :: "string \<Rightarrow> nat list option" where
  "atob_padded [] = Some []"
| "atob_padded (a # b # c # d # rest) =
     (case (b64_index a, b64_index b) of
        (Some x, Some y) \<Rightarrow>
          (let b0 = (x * 4 + y div 16) mod 256
           in if c = CHR ''='' then
                (if d = CHR ''='' \<and> rest = [] then Some [b0] else None)
              else
                (case b64_index c of
                   None \<Rightarrow> None
                 | Some z \<Rightarrow>
                    (let b1 = (y * 16 + z div 4) mod 256
                     in if d = CHR ''='' then
                          (if rest = [] then Some [b0, b1] else None)
                        else
                          (case (b64_index d, atob_padded rest) of
                             (Some w, Some others) \<Rightarrow> Some (b0 # b1 # (z * 64 + w) mod 256 # others)
                           | _ \<Rightarrow> None))))
      | _ \<Rightarrow> None)"
| "atob_padded _ = None"

text \<open>
  The signed value of two bytes, low byte first, written with plain arithmetic: what
  "the \<open>i\<close>-th little-endian signed 16-bit sample" means, independently of the typed array.
\<close>

definition s16le :: "nat \<Rightarrow> nat \<Rightarrow> int" where
  "s16le lo hi =
     (let u = int (lo mod 256) + 256 * int (hi mod 256)
      in if u < 32768 then u else u - 65536)"

definition pcm_samples :: "nat list \<Rightarrow> nat \<Rightarrow> real list" where
  "pcm_samples binaryString n =
     map (\<lambda>i. real_of_int (s16le (binaryString ! (2 * i)) (binaryString ! (2 * i + 1))) / 32768)
       [0..<n]"

section \<open>The player (components/AudioPlayer.tsx)\<close>

subsection \<open>State\<close>

text \<open>
  The state of an \<open>AudioContext\<close> as the component reads it. The component never closes
  its context (the call is commented out), and the code only asks whether the state is
  \<open>suspended\<close>.
\<close>

datatype ctx_state = Suspended | Running | Closed

text \<open>
  What a function of the component closes over: the React state and the prop of the render
  that created it. \<open>setIsPlaying\<close> and \<open>setPlaybackSpeed\<close> change the state of the
  component, not the values a closure already holds.
\<close>

record render =
  r_isPlaying :: bool
  r_playbackSpeed :: jsnum
  r_audioBuffer :: "AudioBuffer option"

text \<open>
  An \<open>AudioBufferSourceNode\<close>. It is created unstarted and renders after \<open>start\<close>.
  \<open>stop()\<close> ends the rendering at once, and the platform dispatches the \<open>ended\<close> event
  of the node in a later task: until then the node is stopped, after it finished. A node
  that plays to its end is finished when its \<open>ended\<close> event is dispatched. No node can be
  started again. \<open>n_onended\<close> is the handler of the \<open>ended\<close> event: the playback speed
  and the buffer the handler closes over.
\<close>

datatype node_phase = Unstarted | Rendering | Stopped | Finished

record source_node =
  n_buffer :: "AudioBuffer option"
  n_playbackRate :: jsnum
  n_connected :: bool
  n_phase :: node_phase
  n_offset :: jsnum
  n_onended :: "(jsnum \<times> AudioBuffer) option"

text \<open>
  The component: its prop, its three React states, its five refs, and the part of the
  platform it acts on, which is every source node created so far (\<open>sourceNodeRef\<close> holds
  the index of one of them), the animation frame callbacks requested and not yet run,
  each with its handle and the render whose \<open>updateProgress\<close> it is, and the calls of
  \<open>playAudio\<close> that wait at \<open>await resume()\<close>, oldest first, each with the render it
  closes over.
\<close>

record player =
  audioBuffer :: "AudioBuffer option"
  isPlaying :: bool
  playbackSpeed :: jsnum
  progress :: jsnum
  audioContextRef :: "ctx_state option"
  sourceNodeRef :: "nat option"
  startTimeRef :: jsnum
  pauseTimeRef :: jsnum
  animationFrameRef :: nat
  nodes :: "source_node list"
  rafCounter :: nat
  rafPending :: "(nat \<times> render) list"
  resumePending :: "render list"

text \<open>A handler returns, or throws after the changes it made so far.\<close>

datatype outcome = Done player | Thrown js_error player

fun state_of :: "outcome \<Rightarrow> player" where
  "state_of (Done s) = s"
| "state_of (Thrown e s) = s"

definition render_of :: "player \<Rightarrow> render" where
  "render_of s =
     \<lparr>r_isPlaying = isPlaying s, r_playbackSpeed = playbackSpeed s,
      r_audioBuffer = audioBuffer s\<rparr>"

text \<open>
  The component once mounted with a buffer: \<open>useState(false)\<close>, \<open>useState(1.0)\<close>,
  \<open>useState(0)\<close>, the refs at \<open>null\<close> and 0, and the context the mount effect created.
\<close>

definition init :: "AudioBuffer \<Rightarrow> ctx_state \<Rightarrow> player" where
  "init buf cst =
     \<lparr>audioBuffer = Some buf, isPlaying = False, playbackSpeed = Fin 1, progress = Fin 0,
      audioContextRef = Some cst, sourceNodeRef = None, startTimeRef = Fin 0,
      pauseTimeRef = Fin 0, animationFrameRef = 0, nodes = [], rafCounter = 0,
      rafPending = [], resumePending = []\<rparr>"


subsection \<open>Platform calls\<close>

definition fresh_node :: source_node where
  "fresh_node =
     \<lparr>n_buffer = None, n_playbackRate = Fin 1, n_connected = False, n_phase = Unstarted,
      n_offset = Fin 0, n_onended = None\<rparr>"

definition update_node :: "nat \<Rightarrow> (source_node \<Rightarrow> source_node) \<Rightarrow> player \<Rightarrow> player" where
  "update_node i f s = s\<lparr>nodes := (nodes s)[i := f (nodes s ! i)]\<rparr>"

text \<open>
  \<open>stop()\<close> on a node that was started: a rendering node stops, and a node that already
  stopped or finished stays as it is.
\<close>

definition stop_node :: "source_node \<Rightarrow> source_node" where
  "stop_node n = n\<lparr>n_phase := (if n_phase n = Rendering then Stopped else n_phase n)\<rparr>"

text \<open>The phase of node \<open>i\<close>; a reference always names a node that was created.\<close>

definition phase_of :: "player \<Rightarrow> nat \<Rightarrow> node_phase" where
  "phase_of s i = (if i < length (nodes s) then n_phase (nodes s ! i) else Finished)"

definition cancelAnimationFrame :: "nat \<Rightarrow> player \<Rightarrow> player" where
  "cancelAnimationFrame h s = s\<lparr>rafPending := filter (\<lambda>(k, r). k \<noteq> h) (rafPending s)\<rparr>"

text \<open>The nodes that render at this instant, by index.\<close>

definition live :: "player \<Rightarrow> nat list" where
  "live s = filter (\<lambda>i. n_phase (nodes s ! i) = Rendering) [0..<length (nodes s)]"

subsection \<open>The functions of the component\<close>

text \<open>
  \<open>(audioContextRef.current.currentTime - startTimeRef.current) * playbackSpeed\<close>, the
  expression of \<open>updateProgress\<close>, \<open>pauseAudio\<close> and the \<open>ended\<close> handler.
\<close>

definition elapsed :: "real \<Rightarrow> jsnum \<Rightarrow> jsnum \<Rightarrow> jsnum" where
  "elapsed currentTime startTime speed = js_mul (js_sub (Fin currentTime) startTime) speed"

text \<open>
  \<open>stopAudio\<close>. \<open>stop()\<close> throws on a node that was never started; the \<open>catch\<close> swallows
  that, and \<open>disconnect()\<close> is then skipped.
\<close>

definition stopAudio :: "player \<Rightarrow> player" where
  "stopAudio s =
     (let s1 = (case sourceNodeRef s of
                  None \<Rightarrow> s
                | Some i \<Rightarrow>
                    (if phase_of s i = Unstarted then s
                     else update_node i (\<lambda>n. (stop_node n)\<lparr>n_connected := False\<rparr>) s)
                    \<lparr>sourceNodeRef := None\<rparr>);
          s2 = (if animationFrameRef s1 \<noteq> 0
                then cancelAnimationFrame (animationFrameRef s1) s1 else s1)
      in s2\<lparr>isPlaying := False\<rparr>)"

text \<open>
  \<open>updateProgress\<close>, from render \<open>r\<close>. It computes \<open>elapsed\<close>, uses it for nothing, and
  requests the next animation frame for itself; it never calls \<open>setProgress\<close>.
\<close>

definition updateProgress :: "render \<Rightarrow> real \<Rightarrow> player \<Rightarrow> player" where
  "updateProgress r now s =
     (if audioContextRef s = None \<or> \<not> r_isPlaying r \<or> r_audioBuffer r = None then s
      else
        (let currentTime = now;
             elapsed' = elapsed currentTime (startTimeRef s) (r_playbackSpeed r);
             h = Suc (rafCounter s)
         in s\<lparr>animationFrameRef := h, rafCounter := h,
              rafPending := rafPending s @ [(h, r)]\<rparr>))"

text \<open>
  \<open>playAudio\<close> after its \<open>await\<close>, from render \<open>r\<close> with buffer \<open>buf\<close> and the device
  clock at \<open>now\<close>: lines 90 to 123. Assigning a number that is not finite to
  \<open>playbackRate.value\<close>, or passing one to \<open>start\<close>, is a TypeError, and a negative offset
  a RangeError.
\<close>

definition playAudio_resumed :: "render \<Rightarrow> AudioBuffer \<Rightarrow> real \<Rightarrow> player \<Rightarrow> outcome" where
  "playAudio_resumed r buf now s1 =
     (let source = length (nodes s1);
          s2 = s1\<lparr>nodes := nodes s1 @ [fresh_node\<lparr>n_buffer := Some buf\<rparr>]\<rparr>
      in if \<not> isFinite (r_playbackSpeed r) then Thrown TypeError s2
         else
           (let s3 = update_node source
                       (\<lambda>n. n\<lparr>n_playbackRate := r_playbackSpeed r,
                               n_connected := True\<rparr>) s2;
                offset = js_rem (pauseTimeRef s3) (duration buf)
            in case offset of
                 Fin x \<Rightarrow>
                   if x < 0 then Thrown RangeError s3
                   else
                     (let s4 = update_node source
                                 (\<lambda>n. n\<lparr>n_phase := Rendering, n_offset := offset\<rparr>) s3;
                          s5 = s4\<lparr>startTimeRef :=
                                     js_sub (Fin now) (js_div offset (r_playbackSpeed r)),
                                  sourceNodeRef := Some source,
                                  isPlaying := True\<rparr>;
                          s6 = update_node source
                                 (\<lambda>n. n\<lparr>n_onended := Some (r_playbackSpeed r, buf)\<rparr>) s5
                      in Done (updateProgress r now s6))
               | _ \<Rightarrow> Thrown TypeError s3))"

text \<open>
  \<open>playAudio\<close> as one call, from render \<open>r\<close>, when nothing else happens while it waits.
  \<open>resume_ok\<close> says whether \<open>resume()\<close> of a suspended context fulfils; where it rejects,
  the \<open>await\<close> throws and nothing after it runs. \<open>now\<close> is the device clock after the
  \<open>await\<close>.
\<close>

definition playAudio :: "render \<Rightarrow> real \<Rightarrow> bool \<Rightarrow> player \<Rightarrow> outcome" where
  "playAudio r now resume_ok s =
     (case r_audioBuffer r of
        None \<Rightarrow> Done s
      | Some buf \<Rightarrow>
         (case audioContextRef s of
            None \<Rightarrow> Done s
          | Some cst \<Rightarrow>
             if cst = Suspended \<and> \<not> resume_ok then Thrown DeviceUnavailable s
             else
               (let s1 = (if cst = Suspended then s\<lparr>audioContextRef := Some Running\<rparr> else s)
                in playAudio_resumed r buf now s1)))"

text \<open>
  The two halves of \<open>playAudio\<close> on a suspended context, between which other events can
  happen. The call itself, lines 83 to 87: on a suspended context it asks for \<open>resume()\<close>
  and waits, having changed nothing; on any other context it runs to its end at once.
\<close>

definition playAudio_called :: "render \<Rightarrow> real \<Rightarrow> player \<Rightarrow> outcome" where
  "playAudio_called r now s =
     (case r_audioBuffer r of
        None \<Rightarrow> Done s
      | Some buf \<Rightarrow>
         (case audioContextRef s of
            None \<Rightarrow> Done s
          | Some cst \<Rightarrow>
             if cst = Suspended then Done (s\<lparr>resumePending := resumePending s @ [r]\<rparr>)
             else playAudio_resumed r buf now s))"

text \<open>
  The promise of the oldest waiting call settles, with the device clock at \<open>now\<close>: a
  rejection is thrown out of that call, a fulfilment leaves the context running and the
  call goes on. The call had a buffer, or it would not wait.
\<close>

definition resume_settled :: "bool \<Rightarrow> real \<Rightarrow> player \<Rightarrow> outcome" where
  "resume_settled resume_ok now s =
     (case resumePending s of
        [] \<Rightarrow> Done s
      | r # waiting \<Rightarrow>
          (let s0 = s\<lparr>resumePending := waiting\<rparr>
           in if \<not> resume_ok then Thrown DeviceUnavailable s0
              else (case r_audioBuffer r of
                      None \<Rightarrow> Done s0
                    | Some buf \<Rightarrow>
                        playAudio_resumed r buf now (s0\<lparr>audioContextRef := Some Running\<rparr>))))"

text \<open>
  The \<open>ended\<close> handler that \<open>playAudio\<close> installs, with the speed and the buffer of the
  render that installed it; \<open>startTimeRef\<close> is read when the event arrives.
\<close>

definition onended :: "jsnum \<times> AudioBuffer \<Rightarrow> real \<Rightarrow> player \<Rightarrow> player" where
  "onended cl now s =
     (case cl of (speed, buf) \<Rightarrow>
        if audioContextRef s \<noteq> None
           \<and> js_ge (elapsed now (startTimeRef s) speed) (js_sub (duration buf) (Fin (1 / 10)))
        then s\<lparr>isPlaying := False, pauseTimeRef := Fin 0, progress := Fin 0\<rparr>
        else s)"

text \<open>\<open>pauseAudio\<close>, from render \<open>r\<close>. Nothing catches what \<open>stop()\<close> throws here.\<close>

definition pauseAudio :: "render \<Rightarrow> real \<Rightarrow> player \<Rightarrow> outcome" where
  "pauseAudio r now s =
     (case sourceNodeRef s of
        None \<Rightarrow> Done s
      | Some i \<Rightarrow>
         if audioContextRef s = None then Done s
         else
           (let elapsed' = elapsed now (startTimeRef s) (r_playbackSpeed r);
                s1 = s\<lparr>pauseTimeRef := elapsed'\<rparr>
            in if phase_of s1 i = Unstarted then Thrown InvalidStateError s1
               else
                 (let s2 = update_node i (\<lambda>n. (stop_node n)\<lparr>n_connected := False\<rparr>) s1;
                      s3 = s2\<lparr>sourceNodeRef := None, isPlaying := False\<rparr>
                  in Done (if animationFrameRef s3 \<noteq> 0
                           then cancelAnimationFrame (animationFrameRef s3) s3 else s3))))"

definition resetAudio :: "player \<Rightarrow> player" where
  "resetAudio s = (stopAudio s)\<lparr>pauseTimeRef := Fin 0, progress := Fin 0\<rparr>"

text \<open>\<open>togglePlay\<close>, from render \<open>r\<close>; it does not wait for \<open>playAudio\<close>.\<close>

definition togglePlay :: "render \<Rightarrow> real \<Rightarrow> player \<Rightarrow> outcome" where
  "togglePlay r now s =
     (if r_isPlaying r then pauseAudio r now s else playAudio_called r now s)"

text \<open>
  \<open>handleSpeedChange\<close>, from render \<open>r\<close>; \<open>newSpeed\<close> is what \<open>parseFloat\<close> made of the
  selected option. \<open>setValueAtTime\<close> throws a TypeError for a value that is not finite and
  a RangeError for a negative time; reading \<open>currentTime\<close> of a missing context is a
  TypeError as well.
\<close>

definition handleSpeedChange :: "render \<Rightarrow> jsnum \<Rightarrow> real \<Rightarrow> player \<Rightarrow> outcome" where
  "handleSpeedChange r newSpeed now s =
     (let s1 = s\<lparr>playbackSpeed := newSpeed\<rparr>
      in if r_isPlaying r then
           (case sourceNodeRef s1 of
              None \<Rightarrow> Done s1
            | Some i \<Rightarrow>
               if audioContextRef s1 = None \<or> \<not> isFinite newSpeed then Thrown TypeError s1
               else if now < 0 then Thrown RangeError s1
               else Done (update_node i (\<lambda>n. n\<lparr>n_playbackRate := newSpeed\<rparr>) s1))
         else Done s1)"

subsection \<open>Events\<close>

text \<open>
  The platform dispatches the \<open>ended\<close> event of node \<open>i\<close>, which was stopped or has played
  to its end, with the device clock at \<open>now\<close>: the node is finished and its handler runs.
\<close>

definition node_ended :: "nat \<Rightarrow> real \<Rightarrow> player \<Rightarrow> player" where
  "node_ended i now s =
     (if i < length (nodes s)
      then (let s1 = update_node i (\<lambda>n. n\<lparr>n_phase := Finished\<rparr>) s
            in case n_onended (nodes s ! i) of
                 None \<Rightarrow> s1
               | Some cl \<Rightarrow> onended cl now s1)
      else s)"

text \<open>
  What can happen to a mounted component whose buffer stays the same: a click on the
  toggle button, a click on the restart button, a choice in the speed menu, the promise
  of a waiting \<open>resume()\<close> settling, the \<open>ended\<close> event of a node that renders or was
  stopped, an animation frame. Each carries the reading of the device clock its handler
  finds, where the handler reads the clock. When a node that renders reaches its end is
  not decided here: any reading can come with its \<open>ended\<close> event. Events are handled one
  at a time and the component has rendered before the next one, so a handler started by
  the user closes over the current state; a call that waits, an \<open>ended\<close> handler and a
  frame callback keep the render they were made in. An exception a handler throws is
  caught by nothing; the component goes on from the state the handler left.
\<close>

datatype event =
    Toggle real
  | Reset
  | SpeedChange jsnum real
  | ResumeSettled bool real
  | Ended nat real
  | Frame nat real

fun step :: "event \<Rightarrow> player \<Rightarrow> player" where
  "step (Toggle now) s = state_of (togglePlay (render_of s) now s)"
| "step Reset s = resetAudio s"
| "step (SpeedChange newSpeed now) s =
     state_of (handleSpeedChange (render_of s) newSpeed now s)"
| "step (ResumeSettled resume_ok now) s = state_of (resume_settled resume_ok now s)"
| "step (Ended i now) s =
     (if phase_of s i = Rendering \<or> phase_of s i = Stopped then node_ended i now s else s)"
| "step (Frame h now) s =
     (case map_of (rafPending s) h of
        None \<Rightarrow> s
      | Some r \<Rightarrow> updateProgress r now (cancelAnimationFrame h s))"

fun run :: "event list \<Rightarrow> player \<Rightarrow> player" where
  "run [] s = s"
| "run (e # es) s = run es (step e s)"

text \<open>
  The progress the specification describes: \<open>elapsed / duration\<close>, clamped to the unit
  interval.
\<close>

fun clamp01 :: "jsnum \<Rightarrow> jsnum" where
  "clamp01 (Fin x) = Fin (min 1 (max 0 x))"
| "clamp01 PosInf = Fin 1"
| "clamp01 NegInf = Fin 0"
| "clamp01 NaN = NaN"

definition spec_progress :: "real \<Rightarrow> player \<Rightarrow> jsnum" where
  "spec_progress now s =
     (case audioBuffer s of
        None \<Rightarrow> Fin 0
      | Some buf \<Rightarrow>
          clamp01 (js_div (elapsed now (startTimeRef s) (playbackSpeed s)) (duration buf)))"

text \<open>A mono buffer of \<open>n\<close> frames of silence at 24000 Hz, for concrete runs.\<close>

definition silence :: "nat \<Rightarrow> AudioBuffer" where
  "silence n =
     \<lparr>numberOfChannels = 1, frames = n, sampleRate = 24000, channelData = [replicate n 0]\<rparr>"

text \<open>
  What holds of the player after any sequence of events: the progress is 0, no animation
  frame is requested, and every call of \<open>playAudio\<close> that waits was made from a render in
  which \<open>isPlaying\<close> was false.
\<close>

definition quiet :: "player \<Rightarrow> bool" where
  "quiet s \<longleftrightarrow>
     progress s = Fin 0 \<and> rafPending s = [] \<and> animationFrameRef s = 0
     \<and> list_all (\<lambda>r. \<not> r_isPlaying r) (resumePending s)"

text \<open>
  The first click on the toggle button, at clock \<open>tc\<close>, after which the node starts at
  clock \<open>t0\<close>: at once on a context that is not suspended, and once \<open>resume()\<close> has
  fulfilled on a suspended one.
\<close>

definition first_click :: "ctx_state \<Rightarrow> real \<Rightarrow> real \<Rightarrow> event list" where
  "first_click cst tc t0 =
     (if cst = Suspended then [Toggle tc, ResumeSettled True t0] else [Toggle t0])"

text \<open>
  Concrete states for the runs below, on buffers of 5 and 2.05 seconds at 24000 Hz: the
  component as mounted on a running and on a suspended context, after a first click on
  the toggle button, and after the speed menu was set to 2 one second later.
\<close>

definition stopped5 :: player where
  "stopped5 = init (silence 120000) Running"

definition suspended5 :: player where
  "suspended5 = init (silence 120000) Suspended"

definition playing5 :: player where
  "playing5 = step (Toggle 0) stopped5"

definition sped5 :: player where
  "sped5 = step (SpeedChange (Fin 2) 1) playing5"

definition stopped205 :: player where
  "stopped205 = init (silence 49200) Running"

declare decode_loop.simps [simp del] sample_loop.simps [simp del] channel_loop.simps [simp del]

section \<open>Properties of the decoder\<close>

lemma decode_loop_eq:
  "i \<le> length bs \<Longrightarrow> length bytes = length bs \<Longrightarrow>
   decode_loop bs i bytes = take i bytes @ map of_nat (drop i bs)"
proof (induction bs i bytes rule: decode_loop.induct)
  case (1 bs i bytes)
  show ?case
  proof (cases "i < length bs")
    case True
    have "decode_loop bs i bytes = decode_loop bs (Suc i) (bytes[i := of_nat (bs ! i)])"
      using True by (subst decode_loop.simps) simp
    also have "\<dots> = take (Suc i) (bytes[i := of_nat (bs ! i)]) @ map of_nat (drop (Suc i) bs)"
      using "1.IH"[OF True] True "1.prems" by simp
    also have "\<dots> = take i bytes @ map of_nat (drop i bs)"
      using True "1.prems"
      by (simp add: take_Suc_conv_app_nth Cons_nth_drop_Suc[symmetric])
    finally show ?thesis .
  next
    case False
    then show ?thesis using "1.prems" by (subst decode_loop.simps) simp
  qed
qed

lemma decode_bytes:
  "atob base64 = Some bs \<Longrightarrow> decode atob base64 = Inr (map of_nat bs)"
  by (simp add: decode_def decode_loop_eq)

lemma decode_fails:
  "atob base64 = None \<Longrightarrow> decode atob base64 = Inl InvalidCharacterError"
  by (simp add: decode_def)

lemma sample_loop_eq:
  "i \<le> n \<Longrightarrow> length chan = n \<Longrightarrow>
   sample_loop d nc c n i chan =
     take i chan @ map (\<lambda>j. real_of_int (sint (d ! (j * nc + c))) / 32768) [i..<n]"
proof (induction d nc c n i chan rule: sample_loop.induct)
  case (1 d nc c n i chan)
  show ?case
  proof (cases "i < n")
    case True
    let ?v = "real_of_int (sint (d ! (i * nc + c))) / 32768"
    have "sample_loop d nc c n i chan = sample_loop d nc c n (Suc i) (chan[i := ?v])"
      using True by (subst sample_loop.simps) simp
    also have "\<dots> = take (Suc i) (chan[i := ?v]) @
        map (\<lambda>j. real_of_int (sint (d ! (j * nc + c))) / 32768) [Suc i..<n]"
      using "1.IH"[OF True] True "1.prems" by simp
    also have "\<dots> = take i chan @ map (\<lambda>j. real_of_int (sint (d ! (j * nc + c))) / 32768) [i..<n]"
      using True "1.prems"
      by (simp add: take_Suc_conv_app_nth upt_conv_Cons)
    finally show ?thesis .
  next
    case False
    then show ?thesis using "1.prems" by (subst sample_loop.simps) simp
  qed
qed

lemma channel_loop_mono:
  "channelData b = [chan] \<Longrightarrow>
   channel_loop d (Suc 0) n 0 b = b\<lparr>channelData := [sample_loop d (Suc 0) 0 n 0 chan]\<rparr>"
  by (subst channel_loop.simps, subst channel_loop.simps) simp

text \<open>Reading two bytes through the typed array gives the signed value \<open>s16le\<close>.\<close>

lemma uint_byte_of_nat: "uint (of_nat k :: byte) = int (k mod 256)"
  by (simp add: unsigned_of_nat take_bit_eq_mod)

lemma uint_byte_less: "uint (a :: byte) < 256"
  using uint_bounded [of a] by simp

lemma uint_word_cat_bytes:
  "uint (word_cat (a :: byte) (b :: byte) :: int16) = uint b + 256 * uint a"
proof -
  have lo: "take_bit 8 (uint b) = uint b"
    using uint_byte_less [of b] by (simp add: take_bit_eq_mod)
  have "concat_bit 8 (uint b) (uint a) = uint b + 256 * uint a"
    by (simp add: concat_bit_eq lo push_bit_eq_mult)
  moreover have "0 \<le> uint b + 256 * uint a" by simp
  moreover have "uint b + 256 * uint a < 65536"
    using uint_byte_less [of a] uint_byte_less [of b] by arith
  moreover have "uint (word_cat a b :: int16) = concat_bit 8 (uint b) (uint a) mod 65536"
    unfolding word_cat_eq' uint_word_of_int by simp
  ultimately show ?thesis
    by (simp only: mod_pos_pos_trivial)
qed

lemma sint_int16: "sint (w :: int16) = (if uint w < 32768 then uint w else uint w - 65536)"
proof -
  have b: "0 \<le> uint w" "uint w < 65536"
    using uint_bounded [of w] by simp_all
  have "sint w = (uint w + 32768) mod 65536 - 32768"
    by (simp add: sint_uint signed_take_bit_eq_take_bit_shift take_bit_eq_mod)
  also have "\<dots> = (if uint w < 32768 then uint w else uint w - 65536)"
  proof (cases "uint w < 32768")
    case True
    then show ?thesis using b by simp
  next
    case False
    then have "(uint w + 32768) mod 65536 = uint w - 32768"
      using b by (simp add: mod_pos_geq)
    then show ?thesis using False by simp
  qed
  finally show ?thesis .
qed

lemma sint_word_cat_bytes:
  "sint (word_cat (of_nat h :: byte) (of_nat l :: byte) :: int16) = s16le l h"
  by (simp add: sint_int16 uint_word_cat_bytes uint_byte_of_nat s16le_def Let_def)

lemma s16le_bounds: "- 32768 \<le> s16le lo hi \<and> s16le lo hi \<le> 32767"
proof -
  have "lo mod 256 < 256" "hi mod 256 < 256" by simp_all
  then have "int (lo mod 256) + 256 * int (hi mod 256) < 65536" by linarith
  moreover have "0 \<le> int (lo mod 256) + 256 * int (hi mod 256)" by simp
  ultimately show ?thesis by (simp add: s16le_def Let_def)
qed

lemma pcm_samples_range: "x \<in> set (pcm_samples bs n) \<Longrightarrow> - 1 \<le> x \<and> x \<le> 1"
proof -
  assume "x \<in> set (pcm_samples bs n)"
  then obtain i where x: "x = real_of_int (s16le (bs ! (2 * i)) (bs ! (2 * i + 1))) / 32768"
    by (auto simp: pcm_samples_def)
  from s16le_bounds [of "bs ! (2 * i)" "bs ! (2 * i + 1)"]
  have "- 32768 \<le> real_of_int (s16le (bs ! (2 * i)) (bs ! (2 * i + 1)))"
    and "real_of_int (s16le (bs ! (2 * i)) (bs ! (2 * i + 1))) \<le> 32767"
    by linarith+
  then show ?thesis unfolding x by simp
qed

lemma Int16Array_even:
  "length bytes = 2 * n \<Longrightarrow> Int16Array bytes = Inr (map (int16_at bytes) [0..<n])"
  by (simp add: Int16Array_def)

lemma Int16Array_odd:
  "odd (length bytes) \<Longrightarrow> Int16Array bytes = Inl RangeError"
  by (simp add: Int16Array_def)

lemma int16_samples:
  assumes "length bs = 2 * n"
  shows "map (\<lambda>j. real_of_int (sint (map (int16_at (map of_nat bs)) [0..<n] ! (j * 1 + 0))) / 32768) [0..<n]
         = pcm_samples bs n"
  unfolding pcm_samples_def
proof (rule map_cong [OF refl])
  fix j assume "j \<in> set [0..<n]"
  then have j: "j < n" by simp
  then have "2 * j < length bs" "2 * j + 1 < length bs" using assms by simp_all
  then have "int16_at (map of_nat bs) j
        = word_cat (of_nat (bs ! (2 * j + 1)) :: byte) (of_nat (bs ! (2 * j)) :: byte)"
    by (simp add: int16_at_def)
  then show "real_of_int (sint (map (int16_at (map of_nat bs)) [0..<n] ! (j * 1 + 0))) / 32768
        = real_of_int (s16le (bs ! (2 * j)) (bs ! (2 * j + 1))) / 32768"
    using j by (simp add: sint_word_cat_bytes)
qed

lemma decodeAudioData_even:
  assumes "atob base64Data = Some binaryString"
    and "length binaryString = 2 * n"
  shows "decodeAudioData atob base64Data ctx sr =
     (let rate = (case sr of None \<Rightarrow> 24000 | Some r \<Rightarrow> r)
      in if n = 0 then Inl InvalidBuffer
         else if rate \<le> 0 \<or> \<not> ctx 1 n rate then Inl NotSupportedError
         else Inr \<lparr>numberOfChannels = 1, frames = n, sampleRate = rate,
                   channelData = [pcm_samples binaryString n]\<rparr>)"
proof -
  have len: "length (map of_nat binaryString :: byte list) = 2 * n"
    using assms(2) by simp
  have dec: "decode atob base64Data = Inr (map of_nat binaryString)"
    using assms(1) by (rule decode_bytes)
  have smp: "sample_loop (map (int16_at (map of_nat binaryString)) [0..<n]) (Suc 0) 0 n 0 (replicate n 0)
       = pcm_samples binaryString n"
    using int16_samples [OF assms(2)] by (simp add: sample_loop_eq)
  have i16: "Int16Array (map of_nat binaryString)
       = Inr (map (int16_at (map of_nat binaryString)) [0..<n])"
    using len by (rule Int16Array_even)
  show ?thesis
    by (simp add: decodeAudioData_def Let_def dec i16 createBuffer_def channel_loop_mono smp)
qed

lemma decodeAudioData_odd_length:
  assumes "atob base64Data = Some binaryString"
    and "odd (length binaryString)"
  shows "decodeAudioData atob base64Data ctx sr = Inl RangeError"
proof -
  have dec: "decode atob base64Data = Inr (map of_nat binaryString)"
    using assms(1) by (rule decode_bytes)
  have "Int16Array (map of_nat binaryString) = Inl RangeError"
    using assms(2) by (simp add: Int16Array_odd)
  then show ?thesis
    by (simp add: decodeAudioData_def Let_def dec)
qed

lemma decodeAudioData_no_text:
  "atob base64Data = None \<Longrightarrow> decodeAudioData atob base64Data ctx sr = Inl InvalidCharacterError"
  by (simp add: decodeAudioData_def Let_def decode_fails)

text \<open>
  C9, as stated, fails for the input that decodes to no bytes, which is \<open>2 * n\<close> bytes for
  \<open>n = 0\<close>: \<open>createBuffer\<close> refuses the length 0, on any context and at any rate, and
  \<open>decodeAudioData\<close> returns no buffer of 0 frames but fails.
\<close>

theorem decodeAudioData_empty_counterexample:
  "atob_padded [] = Some [] \<and> length ([] :: nat list) = 2 * 0
   \<and> decodeAudioData atob_padded [] (\<lambda>c n r. True) None = Inl InvalidBuffer
   \<and> decodeAudioData atob_padded [] (\<lambda>c n r. True) (Some 24000) = Inl InvalidBuffer"
  using decodeAudioData_even [of atob_padded "[]" "[]" 0 "\<lambda>c n r. True"]
  by simp

text \<open>
  C9, amended. Where the text decodes to \<open>2 * n\<close> bytes, \<open>decodeAudioData\<close> fails if
  \<open>n = 0\<close> or if the context does not create a buffer of \<open>n\<close> frames at the rate asked
  for, and otherwise returns a mono buffer of exactly \<open>n\<close> frames at that rate whose
  sample \<open>i\<close> is the \<open>i\<close>-th little-endian signed 16-bit value over 32768; every such
  sample lies between -1 and 1. The result is a function of the arguments alone, so two
  calls on the same input give the same result.
\<close>

theorem decodeAudioData_pcm:
  assumes "atob base64Data = Some binaryString"
    and "length binaryString = 2 * n"
  shows "decodeAudioData atob base64Data ctx sr =
           (if n = 0 then Inl InvalidBuffer
            else if (case sr of None \<Rightarrow> 24000 | Some r \<Rightarrow> r) \<le> 0
                    \<or> \<not> ctx 1 n (case sr of None \<Rightarrow> 24000 | Some r \<Rightarrow> r)
            then Inl NotSupportedError
            else Inr \<lparr>numberOfChannels = 1, frames = n,
                      sampleRate = (case sr of None \<Rightarrow> 24000 | Some r \<Rightarrow> r),
                      channelData = [pcm_samples binaryString n]\<rparr>)
         \<and> length (pcm_samples binaryString n) = n
         \<and> (\<forall>x \<in> set (pcm_samples binaryString n). - 1 \<le> x \<and> x \<le> 1)"
proof -
  have "decodeAudioData atob base64Data ctx sr =
           (if n = 0 then Inl InvalidBuffer
            else if (case sr of None \<Rightarrow> 24000 | Some r \<Rightarrow> r) \<le> 0
                    \<or> \<not> ctx 1 n (case sr of None \<Rightarrow> 24000 | Some r \<Rightarrow> r)
            then Inl NotSupportedError
            else Inr \<lparr>numberOfChannels = 1, frames = n,
                      sampleRate = (case sr of None \<Rightarrow> 24000 | Some r \<Rightarrow> r),
                      channelData = [pcm_samples binaryString n]\<rparr>)"
    using decodeAudioData_even [of atob base64Data binaryString n ctx sr] assms
    by (simp add: Let_def)
  moreover have "length (pcm_samples binaryString n) = n"
    by (simp add: pcm_samples_def)
  ultimately show ?thesis
    using pcm_samples_range by blast
qed

theorem decodeAudioData_pcm_witness:
  "atob_padded ''AID/fw=='' = Some [0, 128, 255, 127]
   \<and> length [0, 128, 255, 127 :: nat] = 2 * 2
   \<and> decodeAudioData atob_padded ''AID/fw=='' (\<lambda>c n r. True) None =
        Inr \<lparr>numberOfChannels = 1, frames = 2, sampleRate = 24000,
             channelData = [[- 1, 32767 / 32768]]\<rparr>
   \<and> - 1 \<le> (- 1 :: real) \<and> (- 1 :: real) \<le> 1
   \<and> - 1 \<le> (32767 / 32768 :: real) \<and> (32767 / 32768 :: real) \<le> 1"
  using decodeAudioData_pcm [of atob_padded "''AID/fw==''" "[0, 128, 255, 127]" 2
      "\<lambda>c n r. True" None]
  by (simp add: b64_index_def pcm_samples_def s16le_def upt_conv_Cons)

text \<open>
  C10. Text that decodes to an odd number of bytes makes \<open>decodeAudioData\<close> fail with the
  RangeError of the \<open>Int16Array\<close> constructor; whenever a buffer is returned, the text
  decoded to an even number of bytes and the buffer has half as many frames.
\<close>

theorem decodeAudioData_even_only:
  "(atob base64Data = Some binaryString \<and> odd (length binaryString)
      \<longrightarrow> decodeAudioData atob base64Data ctx sr = Inl RangeError)
   \<and> (decodeAudioData atob base64Data ctx sr = Inr buf
      \<longrightarrow> (\<exists>bs. atob base64Data = Some bs \<and> even (length bs)
               \<and> frames buf = length bs div 2))"
proof (intro conjI impI)
  assume "atob base64Data = Some binaryString \<and> odd (length binaryString)"
  then show "decodeAudioData atob base64Data ctx sr = Inl RangeError"
    using decodeAudioData_odd_length by blast
next
  assume r: "decodeAudioData atob base64Data ctx sr = Inr buf"
  show "\<exists>bs. atob base64Data = Some bs \<and> even (length bs) \<and> frames buf = length bs div 2"
  proof (cases "atob base64Data")
    case None
    then show ?thesis using r decodeAudioData_no_text [of atob base64Data ctx sr] by simp
  next
    case (Some bs)
    show ?thesis
    proof (cases "odd (length bs)")
      case True
      then show ?thesis using r decodeAudioData_odd_length [of atob base64Data bs ctx sr] Some by simp
    next
      case False
      then obtain n where n: "length bs = 2 * n" by (auto elim: evenE)
      have "frames buf = n"
        using r decodeAudioData_even [of atob base64Data bs n ctx sr] Some n
        by (auto simp: Let_def split: if_splits)
      then show ?thesis using Some False n by simp
    qed
  qed
qed

theorem decodeAudioData_even_only_witness:
  "atob_padded ''AID/'' = Some [0, 128, 255] \<and> odd (length [0, 128, 255 :: nat])
   \<and> decodeAudioData atob_padded ''AID/'' (\<lambda>c n r. 0 < n) None = Inl RangeError
   \<and> decodeAudioData atob_padded ''AID/fw=='' (\<lambda>c n r. 0 < n) None =
        Inr \<lparr>numberOfChannels = 1, frames = 2, sampleRate = 24000,
             channelData = [[- 1, 32767 / 32768]]\<rparr>
   \<and> even (length [0, 128, 255, 127 :: nat])
   \<and> frames \<lparr>numberOfChannels = 1, frames = 2, sampleRate = 24000,
             channelData = [[- 1, 32767 / 32768]]\<rparr> = length [0, 128, 255, 127 :: nat] div 2"
  using decodeAudioData_even_only [of atob_padded "''AID/''" "[0, 128, 255]" "\<lambda>c n r. 0 < n" None
      "\<lparr>numberOfChannels = 1, frames = 2, sampleRate = 24000, channelData = [[- 1, 32767 / 32768]]\<rparr>"]
    decodeAudioData_even [of atob_padded "''AID/fw==''" "[0, 128, 255, 127]" 2 "\<lambda>c n r. 0 < n" None]
  by (simp add: b64_index_def pcm_samples_def s16le_def upt_conv_Cons)

section \<open>Properties of the player\<close>

lemma duration_silence: "duration (silence n) = Fin (real n / 24000)"
  by (simp add: duration_def silence_def)

lemmas player_defs = init_def render_of_def togglePlay_def playAudio_def playAudio_called_def
  playAudio_resumed_def resume_settled_def pauseAudio_def updateProgress_def update_node_def
  fresh_node_def stop_node_def phase_of_def node_ended_def onended_def elapsed_def stopAudio_def
  resetAudio_def handleSpeedChange_def cancelAnimationFrame_def trunc_def Let_def live_def
  spec_progress_def duration_silence

lemma playing5_eq:
  "playing5 =
     \<lparr>audioBuffer = Some (silence 120000), isPlaying = True, playbackSpeed = Fin 1,
      progress = Fin 0, audioContextRef = Some Running, sourceNodeRef = Some 0,
      startTimeRef = Fin 0, pauseTimeRef = Fin 0, animationFrameRef = 0,
      nodes = [\<lparr>n_buffer = Some (silence 120000), n_playbackRate = Fin 1, n_connected = True,
                n_phase = Rendering, n_offset = Fin 0,
                n_onended = Some (Fin 1, silence 120000)\<rparr>],
      rafCounter = 0, rafPending = [], resumePending = []\<rparr>"
  by (simp add: playing5_def stopped5_def player_defs)

lemma js_rem_small: "0 \<le> x \<Longrightarrow> x < y \<Longrightarrow> js_rem (Fin x) (Fin y) = Fin x"
proof -
  assume x: "0 \<le> x" "x < y"
  then have "0 \<le> x / y" "x / y < 1" by simp_all
  then have "\<lfloor>x / y\<rfloor> = 0" by linarith
  then show ?thesis using x \<open>0 \<le> x / y\<close> by (simp add: trunc_def)
qed

lemma run_append: "run (xs @ ys) s = run ys (run xs s)"
  by (induction xs arbitrary: s) simp_all

text \<open>
  On a suspended context with no other call waiting, the call of \<open>playAudio\<close> and the
  settling of its promise together are \<open>playAudio\<close> as one call; on any other context the
  call alone is.
\<close>

lemma playAudio_rejected:
  assumes "audioContextRef s = Some Suspended" and "r_audioBuffer r = Some buf"
  shows "playAudio r now False s = Thrown DeviceUnavailable s"
  using assms by (simp add: playAudio_def)

lemma playAudio_two_halves:
  assumes "audioContextRef s = Some Suspended" and "resumePending s = []"
  shows "resume_settled ok now (state_of (playAudio_called r now0 s)) = playAudio r now ok s"
  using assms
  by (cases s)
    (auto simp: playAudio_called_def resume_settled_def playAudio_def Let_def
      split: option.splits)

lemma playAudio_at_once:
  assumes "audioContextRef s \<noteq> Some Suspended"
  shows "playAudio_called r now s = playAudio r now ok s"
  using assms
  by (auto simp: playAudio_called_def playAudio_def Let_def split: option.splits)

subsection \<open>What every run preserves\<close>

lemma quiet_init: "quiet (init buf cst)"
  by (simp add: quiet_def init_def)

lemma quiet_playAudio_resumed:
  "quiet s \<Longrightarrow> \<not> r_isPlaying r \<Longrightarrow> quiet (state_of (playAudio_resumed r buf now s))"
  by (auto simp: quiet_def playAudio_resumed_def updateProgress_def update_node_def Let_def
      split: jsnum.splits)

lemma quiet_ctx: "quiet (s\<lparr>audioContextRef := c\<rparr>) = quiet s"
  by (simp add: quiet_def)

lemma quiet_playAudio_called:
  "quiet s \<Longrightarrow> \<not> r_isPlaying r \<Longrightarrow> quiet (state_of (playAudio_called r now s))"
  using quiet_playAudio_resumed [of s r]
  by (auto simp: playAudio_called_def split: option.splits) (simp add: quiet_def)

lemma quiet_resume_settled:
  "quiet s \<Longrightarrow> quiet (state_of (resume_settled ok now s))"
proof (cases "resumePending s")
  case Nil
  then show "quiet s \<Longrightarrow> ?thesis" by (simp add: resume_settled_def)
next
  case (Cons r waiting)
  assume q: "quiet s"
  then have r: "\<not> r_isPlaying r" and q0: "quiet (s\<lparr>resumePending := waiting, audioContextRef := Some Running\<rparr>)"
    and q1: "quiet (s\<lparr>resumePending := waiting\<rparr>)"
    using Cons by (simp_all add: quiet_def)
  show ?thesis
    using quiet_playAudio_resumed [OF q0 r] q1 Cons
    by (auto simp: resume_settled_def Let_def split: option.splits)
qed

lemma quiet_pauseAudio: "quiet s \<Longrightarrow> quiet (state_of (pauseAudio r now s))"
  by (auto simp: quiet_def pauseAudio_def update_node_def phase_of_def Let_def
      split: option.splits)

lemma quiet_resetAudio: "quiet s \<Longrightarrow> quiet (resetAudio s)"
  by (auto simp: quiet_def resetAudio_def stopAudio_def update_node_def Let_def
      split: option.splits)

lemma quiet_handleSpeedChange: "quiet s \<Longrightarrow> quiet (state_of (handleSpeedChange r v now s))"
  by (auto simp: quiet_def handleSpeedChange_def update_node_def Let_def split: option.splits)

lemma quiet_node_ended: "quiet s \<Longrightarrow> quiet (node_ended i now s)"
  by (auto simp: quiet_def node_ended_def onended_def update_node_def Let_def
      split: option.splits prod.splits)

lemma quiet_step: "quiet s \<Longrightarrow> quiet (step e s)"
proof (cases e)
  case (Toggle now)
  assume q: "quiet s"
  show ?thesis
  proof (cases "isPlaying s")
    case True
    then show ?thesis using q Toggle by (simp add: togglePlay_def render_of_def quiet_pauseAudio)
  next
    case False
    then show ?thesis using q Toggle by (simp add: togglePlay_def render_of_def quiet_playAudio_called)
  qed
next
  case Reset
  then show "quiet s \<Longrightarrow> ?thesis" by (simp add: quiet_resetAudio)
next
  case (SpeedChange v now)
  then show "quiet s \<Longrightarrow> ?thesis" by (simp add: quiet_handleSpeedChange)
next
  case (ResumeSettled ok now)
  then show "quiet s \<Longrightarrow> ?thesis" by (simp add: quiet_resume_settled)
next
  case (Ended i now)
  then show "quiet s \<Longrightarrow> ?thesis" by (simp add: quiet_node_ended)
next
  case (Frame h now)
  then show "quiet s \<Longrightarrow> ?thesis" by (simp add: quiet_def)
qed

lemma quiet_run: "quiet s \<Longrightarrow> quiet (run evs s)"
  by (induction evs arbitrary: s) (simp_all add: quiet_step)




subsection \<open>One node at a time\<close>

text \<open>
  C1 does not hold of the code. \<open>playAudio\<close> sets \<open>isPlaying\<close> only after it has waited
  for \<open>resume()\<close>, so on a suspended context a second click on the toggle button before
  the promise settles finds \<open>isPlaying\<close> false and calls \<open>playAudio\<close> again. Both calls
  start a node on the 5 second buffer: nodes 0 and 1 render together, and only node 1 is
  referenced, so a pause or a restart stops node 1 and node 0 plays on while the
  component shows a stopped player. Where the promise settles before the second click,
  and on a context that runs, that click pauses and no node renders.
\<close>

theorem toggle_twice_while_suspended:
  "live (run [Toggle 0, Toggle 0, ResumeSettled True 1] suspended5) = [0]
   \<and> live (run [Toggle 0, Toggle 0, ResumeSettled True 1, ResumeSettled True 1] suspended5) = [0, 1]
   \<and> sourceNodeRef (run [Toggle 0, Toggle 0, ResumeSettled True 1, ResumeSettled True 1] suspended5)
       = Some 1
   \<and> live (run [Toggle 0, Toggle 0, ResumeSettled True 1, ResumeSettled True 1, Toggle 2] suspended5)
       = [0]
   \<and> \<not> isPlaying (run [Toggle 0, Toggle 0, ResumeSettled True 1, ResumeSettled True 1, Toggle 2]
        suspended5)
   \<and> live (run [Toggle 0, Toggle 0, ResumeSettled True 1, ResumeSettled True 1, Reset] suspended5)
       = [0]
   \<and> live (run [Toggle 0, ResumeSettled True 1, Toggle 2] suspended5) = []
   \<and> live (run [Toggle 0, Toggle 0] stopped5) = []"
  by (simp add: suspended5_def stopped5_def player_defs)

subsection \<open>Speed changes\<close>

text \<open>
  C2, as stated, fails: on the 5 second buffer played from clock 0 at speed 1, the change
  to speed 2 at clock 1 leaves \<open>startTimeRef\<close> at 0. At clock 2 the elapsed expression is
  4 seconds, a ratio of 0.8 and not 0.6, the progress state is 0, and a pause stores 4.
\<close>

theorem speed_change_counterexample:
  "isPlaying sped5 \<and> playbackSpeed sped5 = Fin 2 \<and> n_playbackRate (nodes sped5 ! 0) = Fin 2
   \<and> startTimeRef sped5 = Fin 0
   \<and> elapsed 2 (startTimeRef sped5) (playbackSpeed sped5) = Fin 4
   \<and> spec_progress 2 sped5 = Fin (4 / 5)
   \<and> progress (updateProgress (render_of sped5) 2 sped5) = Fin 0
   \<and> pauseTimeRef (step (Toggle 2) sped5) = Fin 4"
  by (simp add: sped5_def playing5_eq player_defs)

text \<open>
  C2, amended. \<open>handleSpeedChange\<close> stores the new speed and, while playing, sets the rate
  of the referenced node to it, the node rendering on; it leaves \<open>startTimeRef\<close>,
  \<open>pauseTimeRef\<close> and the progress as they were, so the elapsed expression afterwards is
  \<open>(now - startTimeRef) * newSpeed\<close>.
\<close>

theorem handleSpeedChange_keeps_start:
  "startTimeRef (state_of (handleSpeedChange r v now s)) = startTimeRef s
   \<and> pauseTimeRef (state_of (handleSpeedChange r v now s)) = pauseTimeRef s
   \<and> progress (state_of (handleSpeedChange r v now s)) = progress s
   \<and> elapsed t (startTimeRef (state_of (handleSpeedChange r v now s)))
        (playbackSpeed (state_of (handleSpeedChange r v now s)))
       = js_mul (js_sub (Fin t) (startTimeRef s)) v
   \<and> (r_isPlaying r \<and> sourceNodeRef s = Some i \<and> i < length (nodes s)
        \<and> audioContextRef s \<noteq> None \<and> isFinite v \<and> 0 \<le> now
      \<longrightarrow> n_playbackRate (nodes (state_of (handleSpeedChange r v now s)) ! i) = v
          \<and> n_phase (nodes (state_of (handleSpeedChange r v now s)) ! i) = n_phase (nodes s ! i))"
  by (auto simp: handleSpeedChange_def update_node_def Let_def elapsed_def split: option.splits)

theorem handleSpeedChange_keeps_start_witness:
  "r_isPlaying (render_of playing5) \<and> sourceNodeRef playing5 = Some 0
   \<and> 0 < length (nodes playing5) \<and> audioContextRef playing5 \<noteq> None
   \<and> isFinite (Fin 2) \<and> (0 :: real) \<le> 1
   \<and> startTimeRef (state_of (handleSpeedChange (render_of playing5) (Fin 2) 1 playing5)) = Fin 0
   \<and> elapsed 2 (startTimeRef (state_of (handleSpeedChange (render_of playing5) (Fin 2) 1 playing5)))
        (playbackSpeed (state_of (handleSpeedChange (render_of playing5) (Fin 2) 1 playing5)))
       = Fin 4
   \<and> n_playbackRate (nodes (state_of (handleSpeedChange (render_of playing5) (Fin 2) 1 playing5)) ! 0)
       = Fin 2"
  using handleSpeedChange_keeps_start [of "render_of playing5" "Fin 2" 1 playing5 2 0]
  by (simp add: playing5_eq player_defs)

subsection \<open>Progress\<close>

text \<open>
  C3, as stated, fails: while the 5 second buffer plays, at clock 2 the clamped ratio of
  elapsed time to duration is 0.4, and the progress after a call of \<open>updateProgress\<close> is 0.
\<close>

theorem progress_tick_counterexample:
  "isPlaying playing5 \<and> spec_progress 2 playing5 = Fin (2 / 5)
   \<and> progress (updateProgress (render_of playing5) 2 playing5) = Fin 0"
  by (simp add: playing5_eq player_defs)

text \<open>
  C3, amended. \<open>updateProgress\<close> never writes the progress. The progress is 0 after every
  sequence of events, playing or not, and no animation frame is ever pending, since
  \<open>playAudio\<close> calls the \<open>updateProgress\<close> of a render in which \<open>isPlaying\<close> was false.
\<close>

theorem progress_never_recomputed:
  "progress (updateProgress r now s) = progress s
   \<and> progress (run evs (init buf cst)) = Fin 0
   \<and> rafPending (run evs (init buf cst)) = []"
proof -
  have "quiet (run evs (init buf cst))"
    by (simp add: quiet_run quiet_init)
  then show ?thesis
    by (simp add: quiet_def updateProgress_def Let_def)
qed

theorem progress_never_recomputed_witness:
  "progress (updateProgress (render_of playing5) 2 playing5) = progress playing5
   \<and> progress (run [Toggle 0, Toggle 0, ResumeSettled True 1, ResumeSettled True 1, Toggle 2,
        Toggle 3, Ended 1 6, Reset] suspended5) = Fin 0
   \<and> rafPending (run [Toggle 0, Toggle 0, ResumeSettled True 1, ResumeSettled True 1, Toggle 2,
        Toggle 3, Ended 1 6, Reset] suspended5) = []"
  using progress_never_recomputed [of "render_of playing5" 2 playing5
      "[Toggle 0, Toggle 0, ResumeSettled True 1, ResumeSettled True 1, Toggle 2,
        Toggle 3, Ended 1 6, Reset]" "silence 120000" Suspended]
  by (simp add: suspended5_def)

subsection \<open>Pause and resume\<close>

text \<open>
  C4, as stated, fails for a buffer of 2.05 seconds: the pause after 2.0 seconds stores
  2.0 and stops the node; the \<open>ended\<close> event of the stopped node arrives a moment later,
  its handler finds the elapsed time within 0.1 seconds of the end and resets the stored
  offset, and the next play starts from 0.
\<close>

theorem pause_near_end_counterexample:
  "duration (silence 49200) = Fin (41 / 20)
   \<and> isPlaying (run [Toggle 0] stopped205)
   \<and> pauseTimeRef (run [Toggle 0, Toggle 2] stopped205) = Fin 2
   \<and> phase_of (run [Toggle 0, Toggle 2] stopped205) 0 = Stopped
   \<and> pauseTimeRef (run [Toggle 0, Toggle 2, Ended 0 (201 / 100)] stopped205) = Fin 0
   \<and> n_offset (nodes (run [Toggle 0, Toggle 2, Ended 0 (201 / 100), Toggle 3] stopped205) ! 1)
       = Fin 0
   \<and> elapsed 3 (startTimeRef (run [Toggle 0, Toggle 2, Ended 0 (201 / 100), Toggle 3] stopped205))
        (playbackSpeed (run [Toggle 0, Toggle 2, Ended 0 (201 / 100), Toggle 3] stopped205))
       = Fin 0"
  by (simp add: stopped205_def player_defs)

lemma first_play:
  assumes "0 < real (frames buf) / sampleRate buf"
  shows "run (first_click cst tc t0) (init buf cst) =
     \<lparr>audioBuffer = Some buf, isPlaying = True, playbackSpeed = Fin 1, progress = Fin 0,
      audioContextRef = Some (if cst = Suspended then Running else cst),
      sourceNodeRef = Some 0, startTimeRef = Fin t0, pauseTimeRef = Fin 0,
      animationFrameRef = 0,
      nodes = [\<lparr>n_buffer = Some buf, n_playbackRate = Fin 1, n_connected = True,
                n_phase = Rendering, n_offset = Fin 0, n_onended = Some (Fin 1, buf)\<rparr>],
      rafCounter = 0, rafPending = [], resumePending = []\<rparr>"
proof -
  have "js_rem (Fin 0) (duration buf) = Fin 0"
    unfolding duration_def using assms by (intro js_rem_small) simp_all
  then show ?thesis
    by (simp add: first_click_def init_def render_of_def togglePlay_def playAudio_called_def
        resume_settled_def playAudio_resumed_def Let_def update_node_def fresh_node_def
        updateProgress_def)
qed

lemma then_pause:
  assumes "0 \<le> d" and "d < real (frames buf) / sampleRate buf"
  shows "step (Toggle (t0 + d)) (run (first_click cst tc t0) (init buf cst)) =
     \<lparr>audioBuffer = Some buf, isPlaying = False, playbackSpeed = Fin 1, progress = Fin 0,
      audioContextRef = Some (if cst = Suspended then Running else cst),
      sourceNodeRef = None, startTimeRef = Fin t0, pauseTimeRef = Fin d,
      animationFrameRef = 0,
      nodes = [\<lparr>n_buffer = Some buf, n_playbackRate = Fin 1, n_connected = False,
                n_phase = Stopped, n_offset = Fin 0, n_onended = Some (Fin 1, buf)\<rparr>],
      rafCounter = 0, rafPending = [], resumePending = []\<rparr>"
proof -
  have pos: "0 < real (frames buf) / sampleRate buf" using assms by linarith
  show ?thesis
    unfolding first_play [OF pos]
    by (simp add: render_of_def togglePlay_def pauseAudio_def Let_def update_node_def
        phase_of_def stop_node_def elapsed_def)
qed

lemma then_ended:
  assumes "0 \<le> d" and "d \<le> e" and "e < real (frames buf) / sampleRate buf - 1 / 10"
  shows "step (Ended 0 (t0 + e))
           (step (Toggle (t0 + d)) (run (first_click cst tc t0) (init buf cst))) =
     \<lparr>audioBuffer = Some buf, isPlaying = False, playbackSpeed = Fin 1, progress = Fin 0,
      audioContextRef = Some (if cst = Suspended then Running else cst),
      sourceNodeRef = None, startTimeRef = Fin t0, pauseTimeRef = Fin d,
      animationFrameRef = 0,
      nodes = [\<lparr>n_buffer = Some buf, n_playbackRate = Fin 1, n_connected = False,
                n_phase = Finished, n_offset = Fin 0, n_onended = Some (Fin 1, buf)\<rparr>],
      rafCounter = 0, rafPending = [], resumePending = []\<rparr>"
proof -
  have d: "d < real (frames buf) / sampleRate buf" using assms by linarith
  have early: "\<not> real (frames buf) / sampleRate buf - 1 / 10 \<le> e" using assms by linarith
  show ?thesis
    unfolding then_pause [OF assms(1) d]
    using early
    by (simp add: Let_def update_node_def phase_of_def node_ended_def onended_def elapsed_def
        duration_def)
qed

lemma then_resume:
  assumes "0 \<le> d" and "d \<le> e" and "e < real (frames buf) / sampleRate buf - 1 / 10"
  shows "step (Toggle t1)
           (step (Ended 0 (t0 + e))
              (step (Toggle (t0 + d)) (run (first_click cst tc t0) (init buf cst)))) =
     \<lparr>audioBuffer = Some buf, isPlaying = True, playbackSpeed = Fin 1, progress = Fin 0,
      audioContextRef = Some (if cst = Suspended then Running else cst),
      sourceNodeRef = Some 1, startTimeRef = Fin (t1 - d), pauseTimeRef = Fin d,
      animationFrameRef = 0,
      nodes = [\<lparr>n_buffer = Some buf, n_playbackRate = Fin 1, n_connected = False,
                n_phase = Finished, n_offset = Fin 0, n_onended = Some (Fin 1, buf)\<rparr>,
               \<lparr>n_buffer = Some buf, n_playbackRate = Fin 1, n_connected = True,
                n_phase = Rendering, n_offset = Fin d, n_onended = Some (Fin 1, buf)\<rparr>],
      rafCounter = 0, rafPending = [], resumePending = []\<rparr>"
proof -
  have "d < real (frames buf) / sampleRate buf" using assms by linarith
  then have "js_rem (Fin d) (duration buf) = Fin d"
    unfolding duration_def using assms(1) by (intro js_rem_small) simp_all
  then show ?thesis
    unfolding then_ended [OF assms]
    using assms(1)
    by (simp add: render_of_def togglePlay_def playAudio_called_def playAudio_resumed_def Let_def
        update_node_def fresh_node_def updateProgress_def)
qed

text \<open>
  C4, amended. Take a buffer, a time \<open>d \<ge> 0\<close> and a time \<open>e \<ge> d\<close> that is at least a
  millisecond short of \<open>duration - 0.1\<close>, the margin keeping the comparison of the
  \<open>ended\<close> handler away from where rounding would decide it (so \<open>d = 2.0\<close> and every
  buffer longer than 2.101 seconds, with an \<open>ended\<close> event in time). A first play at
  speed 1 whose node starts at clock \<open>t0\<close>, and a pause \<open>d\<close> seconds later, store
  exactly \<open>d\<close>, which is its own remainder modulo the duration; the \<open>ended\<close> event of the
  stopped node, arriving \<open>e\<close> seconds after the start, keeps it; and the next play starts
  the one live node at offset \<open>d\<close>, the elapsed time continuing from \<open>d\<close>.
\<close>

theorem pause_resume_offset:
  assumes "0 \<le> d" and "d \<le> e"
    and "e \<le> real (frames buf) / sampleRate buf - 1 / 10 - 1 / 1000"
  shows "isPlaying (run (first_click cst tc t0) (init buf cst))
     \<and> \<not> isPlaying (run (first_click cst tc t0 @ [Toggle (t0 + d)]) (init buf cst))
     \<and> pauseTimeRef (run (first_click cst tc t0 @ [Toggle (t0 + d)]) (init buf cst)) = Fin d
     \<and> js_rem (Fin d) (duration buf) = Fin d
     \<and> pauseTimeRef (run (first_click cst tc t0 @ [Toggle (t0 + d), Ended 0 (t0 + e)])
          (init buf cst)) = Fin d
     \<and> isPlaying (run (first_click cst tc t0 @ [Toggle (t0 + d), Ended 0 (t0 + e), Toggle t1])
          (init buf cst))
     \<and> live (run (first_click cst tc t0 @ [Toggle (t0 + d), Ended 0 (t0 + e), Toggle t1])
          (init buf cst)) = [1]
     \<and> n_offset (nodes (run (first_click cst tc t0
            @ [Toggle (t0 + d), Ended 0 (t0 + e), Toggle t1]) (init buf cst)) ! 1) = Fin d
     \<and> elapsed t
          (startTimeRef (run (first_click cst tc t0
             @ [Toggle (t0 + d), Ended 0 (t0 + e), Toggle t1]) (init buf cst)))
          (playbackSpeed (run (first_click cst tc t0
             @ [Toggle (t0 + d), Ended 0 (t0 + e), Toggle t1]) (init buf cst)))
         = Fin (d + (t - t1))"
proof -
  have e: "e < real (frames buf) / sampleRate buf - 1 / 10" using assms by linarith
  have pos: "0 < real (frames buf) / sampleRate buf" using assms by linarith
  have dd: "d < real (frames buf) / sampleRate buf" using assms by linarith
  then have rem: "js_rem (Fin d) (duration buf) = Fin d"
    unfolding duration_def using assms(1) by (intro js_rem_small) simp_all
  have r2: "run (first_click cst tc t0 @ [Toggle (t0 + d)]) (init buf cst)
      = step (Toggle (t0 + d)) (run (first_click cst tc t0) (init buf cst))"
    by (simp only: run_append run.simps)
  have r3: "run (first_click cst tc t0 @ [Toggle (t0 + d), Ended 0 (t0 + e)]) (init buf cst)
      = step (Ended 0 (t0 + e))
          (step (Toggle (t0 + d)) (run (first_click cst tc t0) (init buf cst)))"
    by (simp only: run_append run.simps)
  have r4: "run (first_click cst tc t0 @ [Toggle (t0 + d), Ended 0 (t0 + e), Toggle t1])
        (init buf cst)
      = step (Toggle t1) (step (Ended 0 (t0 + e))
          (step (Toggle (t0 + d)) (run (first_click cst tc t0) (init buf cst))))"
    by (simp only: run_append run.simps)
  have c1: "isPlaying (run (first_click cst tc t0) (init buf cst))"
    unfolding first_play [OF pos] by simp
  have c2: "\<not> isPlaying (run (first_click cst tc t0 @ [Toggle (t0 + d)]) (init buf cst))
     \<and> pauseTimeRef (run (first_click cst tc t0 @ [Toggle (t0 + d)]) (init buf cst)) = Fin d"
    unfolding r2 then_pause [OF assms(1) dd] by simp
  have c3: "pauseTimeRef (run (first_click cst tc t0 @ [Toggle (t0 + d), Ended 0 (t0 + e)])
          (init buf cst)) = Fin d"
    unfolding r3 then_ended [OF assms(1,2) e] by simp
  have c4: "isPlaying (run (first_click cst tc t0 @ [Toggle (t0 + d), Ended 0 (t0 + e), Toggle t1])
          (init buf cst))
     \<and> live (run (first_click cst tc t0 @ [Toggle (t0 + d), Ended 0 (t0 + e), Toggle t1])
          (init buf cst)) = [1]
     \<and> n_offset (nodes (run (first_click cst tc t0
            @ [Toggle (t0 + d), Ended 0 (t0 + e), Toggle t1]) (init buf cst)) ! 1) = Fin d
     \<and> elapsed t
          (startTimeRef (run (first_click cst tc t0
             @ [Toggle (t0 + d), Ended 0 (t0 + e), Toggle t1]) (init buf cst)))
          (playbackSpeed (run (first_click cst tc t0
             @ [Toggle (t0 + d), Ended 0 (t0 + e), Toggle t1]) (init buf cst)))
         = Fin (d + (t - t1))"
    unfolding r4 then_resume [OF assms(1,2) e] by (simp add: live_def elapsed_def)
  show ?thesis
    using c1 c2 c3 c4 rem by blast
qed

theorem pause_resume_offset_witness:
  "(0 :: real) \<le> 2 \<and> (2 :: real) \<le> 201 / 100
   \<and> (201 / 100 :: real)
        \<le> real (frames (silence 120000)) / sampleRate (silence 120000) - 1 / 10 - 1 / 1000
   \<and> pauseTimeRef (run [Toggle 3, ResumeSettled True (7 / 2), Toggle (11 / 2)] suspended5)
       = Fin 2
   \<and> pauseTimeRef (run [Toggle 3, ResumeSettled True (7 / 2), Toggle (11 / 2),
        Ended 0 (551 / 100)] suspended5) = Fin 2
   \<and> live (run [Toggle 3, ResumeSettled True (7 / 2), Toggle (11 / 2),
        Ended 0 (551 / 100), Toggle 10] suspended5) = [1]
   \<and> n_offset (nodes (run [Toggle 3, ResumeSettled True (7 / 2), Toggle (11 / 2),
        Ended 0 (551 / 100), Toggle 10] suspended5) ! 1) = Fin 2
   \<and> elapsed 11
        (startTimeRef (run [Toggle 3, ResumeSettled True (7 / 2), Toggle (11 / 2),
           Ended 0 (551 / 100), Toggle 10] suspended5))
        (playbackSpeed (run [Toggle 3, ResumeSettled True (7 / 2), Toggle (11 / 2),
           Ended 0 (551 / 100), Toggle 10] suspended5))
       = Fin 3"
proof -
  have f: "frames (silence 120000) = 120000" "sampleRate (silence 120000) = 24000"
    by (simp_all add: silence_def)
  have c: "first_click Suspended 3 (7 / 2) = [Toggle 3, ResumeSettled True (7 / 2)]"
    by (simp add: first_click_def)
  have t: "(7 / 2 :: real) + 2 = 11 / 2" "(7 / 2 :: real) + 201 / 100 = 551 / 100"
    "(2 :: real) + (11 - 10) = 3"
    by simp_all
  show ?thesis
    using pause_resume_offset [of 2 "201 / 100" "silence 120000" Suspended 3 "7 / 2" 10 11] f
    unfolding c suspended5_def t append.simps
    by simp
qed

subsection \<open>Completion\<close>

text \<open>
  C5 does not hold of the code. The \<open>ended\<close> handler multiplies by the playback speed of
  the render that started the node, not by the speed in force. The 5 second buffer is
  played from clock 10 at speed 1 and the speed is set to 2 at clock 11, so the node has
  played its 5 seconds of sound at clock 13: one in the second at speed 1 and four in
  the two seconds at speed 2. The elapsed
  expression with the speed in force is 6 seconds, past the 4.9 seconds of the test, but
  the handler computes 3 seconds with the speed it closed over: the node is finished,
  nothing renders, \<open>isPlaying\<close> stays true and the stored offset is not reset. Without the
  change of speed the same handler, at clock 15, sets \<open>isPlaying\<close> to false.
\<close>

theorem ended_after_speed_change:
  "phase_of (run [Toggle 10, SpeedChange (Fin 2) 11, Ended 0 13] stopped5) 0 = Finished
   \<and> live (run [Toggle 10, SpeedChange (Fin 2) 11, Ended 0 13] stopped5) = []
   \<and> isPlaying (run [Toggle 10, SpeedChange (Fin 2) 11, Ended 0 13] stopped5)
   \<and> playbackSpeed (run [Toggle 10, SpeedChange (Fin 2) 11, Ended 0 13] stopped5) = Fin 2
   \<and> n_playbackRate (nodes (run [Toggle 10, SpeedChange (Fin 2) 11] stopped5) ! 0) = Fin 2
   \<and> elapsed 13 (startTimeRef (run [Toggle 10, SpeedChange (Fin 2) 11] stopped5))
        (playbackSpeed (run [Toggle 10, SpeedChange (Fin 2) 11] stopped5)) = Fin 6
   \<and> js_ge (Fin 6) (js_sub (duration (silence 120000)) (Fin (1 / 10)))
   \<and> n_onended (nodes (run [Toggle 10, SpeedChange (Fin 2) 11] stopped5) ! 0)
       = Some (Fin 1, silence 120000)
   \<and> elapsed 13 (startTimeRef (run [Toggle 10, SpeedChange (Fin 2) 11] stopped5)) (Fin 1)
       = Fin 3
   \<and> \<not> js_ge (Fin 3) (js_sub (duration (silence 120000)) (Fin (1 / 10)))
   \<and> isPlaying (run [Toggle 10, SpeedChange (Fin 2) 11, Ended 0 13, Toggle 14] stopped5)
       = False
   \<and> pauseTimeRef (run [Toggle 10, SpeedChange (Fin 2) 11, Ended 0 13, Toggle 14] stopped5)
       = Fin 8
   \<and> \<not> isPlaying (run [Toggle 10, Ended 0 15] stopped5)
   \<and> pauseTimeRef (run [Toggle 10, Ended 0 15] stopped5) = Fin 0"
  by (simp add: stopped5_def player_defs)

subsection \<open>Failures\<close>




text \<open>
  C8. When the context is suspended and \<open>resume()\<close> rejects, \<open>playAudio\<close> fails with that
  rejection and leaves the state as it was: no node is created, no node becomes live, and
  \<open>isPlaying\<close> keeps its value. A click on the toggle button of a player that is not
  playing, followed by the rejection, changes nothing but the calls that wait: the new
  call joined them and the oldest left, so with no other call waiting the state is the
  one before the click.
\<close>

theorem playAudio_resume_fails:
  assumes "audioContextRef s = Some Suspended" and "r_audioBuffer r = Some buf"
  shows "playAudio r now False s = Thrown DeviceUnavailable s
         \<and> nodes (state_of (playAudio r now False s)) = nodes s
         \<and> live (state_of (playAudio r now False s)) = live s
         \<and> isPlaying (state_of (playAudio r now False s)) = isPlaying s
         \<and> (\<not> isPlaying s \<and> r = render_of s
            \<longrightarrow> run [Toggle now0, ResumeSettled False now] s
                = s\<lparr>resumePending := tl (resumePending s @ [r])\<rparr>)
         \<and> (\<not> isPlaying s \<and> r = render_of s \<and> resumePending s = []
            \<longrightarrow> run [Toggle now0, ResumeSettled False now] s = s)"
proof -
  have p: "playAudio r now False s = Thrown DeviceUnavailable s"
    using assms by (rule playAudio_rejected)
  have "run [Toggle now0, ResumeSettled False now] s
      = s\<lparr>resumePending := tl (resumePending s @ [r])\<rparr>"
    if "\<not> isPlaying s" and "r = render_of s"
  proof -
    have "togglePlay (render_of s) now0 s = Done (s\<lparr>resumePending := resumePending s @ [r]\<rparr>)"
      using that assms by (simp add: togglePlay_def playAudio_called_def render_of_def)
    then show ?thesis
      by (cases "resumePending s") (simp_all add: resume_settled_def)
  qed
  moreover have "s\<lparr>resumePending := tl (resumePending s @ [r])\<rparr> = s" if "resumePending s = []"
    using that by (cases s) simp
  ultimately show ?thesis using p by simp
qed

theorem playAudio_resume_fails_witness:
  "audioContextRef suspended5 = Some Suspended
   \<and> r_audioBuffer (render_of suspended5) = Some (silence 120000)
   \<and> playAudio (render_of suspended5) 1 False suspended5 = Thrown DeviceUnavailable suspended5
   \<and> \<not> isPlaying suspended5
   \<and> nodes suspended5 = []
   \<and> run [Toggle 0, ResumeSettled False 1] suspended5 = suspended5"
  using playAudio_resume_fails [of suspended5 "render_of suspended5" "silence 120000" 1 0]
  by (simp add: suspended5_def init_def render_of_def)

end
